theory Spec2Isabelle
  imports Complex_Main "HOL-Library.Word"
begin

section \<open>Arrays and Python arithmetic\<close>

text \<open>
  The script \<^verbatim>\<open>app.py\<close> works on numpy arrays. An array is its shape together with
  its elements in row-major order. Floating-point values are modelled by the rational
  numbers their literals denote; raw MNIST pixels and labels are unsigned bytes.
\<close>

datatype py_error = ValueError | ZeroDivisionError

record 'a ndarray =
  shape :: "nat list"
  data :: "'a list"

type_synonym matrix = "rat list list"

text \<open>\<^verbatim>\<open>a.reshape(dims)\<close>: the element count must not change; the elements stay as they are.\<close>

definition reshape :: "'a ndarray \<Rightarrow> nat list \<Rightarrow> py_error + 'a ndarray" where
  "reshape a dims =
     (if prod_list dims = length (data a) then Inr (a\<lparr>shape := dims\<rparr>) else Inl ValueError)"

text \<open>Row \<open>i\<close> of a two-dimensional array, \<^verbatim>\<open>a[i]\<close>.\<close>

definition nd_row :: "'a ndarray \<Rightarrow> nat \<Rightarrow> 'a list" where
  "nd_row a i = take (shape a ! 1) (drop (i * (shape a ! 1)) (data a))"

text \<open>
  Python 3 true division \<^verbatim>\<open>a / b\<close> of two integers and the conversion \<^verbatim>\<open>int(q)\<close>, which
  truncates towards zero.
\<close>

definition py_truediv :: "int \<Rightarrow> int \<Rightarrow> py_error + rat" where
  "py_truediv a b = (if b = 0 then Inl ZeroDivisionError else Inr (of_int a / of_int b))"

definition py_int :: "rat \<Rightarrow> int" where
  "py_int q = (if 0 \<le> q then \<lfloor>q\<rfloor> else \<lceil>q\<rceil>)"

section \<open>Loading the dataset\<close>

text \<open>
  \<^verbatim>\<open>mnist.load_data()\<close> is external: its result is the argument of the model.
  \<^verbatim>\<open>
  def load_minst_data():
      (x_train, y_train), (x_test, y_test) = mnist.load_data()
      x_train = (x_train.astype(np.float32) - 127.5)/127.5
      x_train = x_train.reshape(60000, 784)
      return (x_train, y_train, x_test, y_test)
  \<close>
\<close>

record mnist_data =
  raw_x_train :: "8 word ndarray"
  raw_y_train :: "8 word ndarray"
  raw_x_test :: "8 word ndarray"
  raw_y_test :: "8 word ndarray"

definition normalize_pixel :: "8 word \<Rightarrow> rat" where
  "normalize_pixel v = (of_nat (unat v) - 255 / 2) / (255 / 2)"

definition load_minst_data ::
  "mnist_data \<Rightarrow> py_error + (rat ndarray \<times> 8 word ndarray \<times> 8 word ndarray \<times> 8 word ndarray)" where
  "load_minst_data m =
     (let x_train = \<lparr>shape = shape (raw_x_train m),
                      data = map normalize_pixel (data (raw_x_train m))\<rparr>
      in case reshape x_train [60000, 784] of
           Inl e \<Rightarrow> Inl e
         | Inr x_train' \<Rightarrow> Inr (x_train', raw_y_train m, raw_x_test m, raw_y_test m))"

text \<open>A dataset of the size MNIST has, with every pixel and label set to one byte.\<close>

definition mnist_const :: "8 word \<Rightarrow> mnist_data" where
  "mnist_const v =
     \<lparr>raw_x_train = \<lparr>shape = [60000, 28, 28], data = replicate 47040000 v\<rparr>,
      raw_y_train = \<lparr>shape = [60000], data = replicate 60000 v\<rparr>,
      raw_x_test = \<lparr>shape = [10000, 28, 28], data = replicate 7840000 v\<rparr>,
      raw_y_test = \<lparr>shape = [10000], data = replicate 10000 v\<rparr>\<rparr>"

section \<open>Optimiser and networks\<close>

text \<open>
  Objects that the script shares by reference are kept in a store: an optimiser is
  an entry of a list of optimiser objects, and a network holds the index of the one
  it was compiled with.
  \<^verbatim>\<open>
  def get_optimizer():
      return Adam(lr=0.0002, beta_1=0.5)
  \<close>
\<close>

record adam =
  lr :: rat
  beta_1 :: rat

definition get_optimizer :: "adam list \<Rightarrow> nat \<times> adam list" where
  "get_optimizer heap = (length heap, heap @ [\<lparr>lr = 2 / 10000, beta_1 = 5 / 10\<rparr>])"

datatype activation = Linear | Tanh | Sigmoid

datatype layer =
    Dense nat "nat option" "rat option" activation
      \<comment> \<open>units, \<^verbatim>\<open>input_dim\<close>, standard deviation of a \<^verbatim>\<open>RandomNormal\<close> initialiser, activation\<close>
  | LeakyReLU rat
  | Dropout rat

record 'p model =
  layers :: "layer list"
  weights :: 'p
  loss :: string
  optimizer :: nat
  trainable :: bool

record composite =
  gan_input_dim :: nat
  gan_loss :: string
  gan_optimizer :: nat

definition random_dim :: nat where
  "random_dim = 100"

text \<open>
  The deep-learning framework and numpy's random generator are external. They are
  parameters of the model: the initial weights of a layer stack, the two random draws
  used by the script, the forward pass, and one optimiser step on the discriminator's
  weights, on the generator's weights through the composite network, and on both.
  \<open>'r\<close> is the state of the random generator and \<open>'p\<close> the weights of a network.
\<close>

record ('r, 'p) framework =
  init_weights :: "layer list \<Rightarrow> 'p"
  random_normal :: "'r \<Rightarrow> nat \<Rightarrow> nat \<Rightarrow> matrix \<times> 'r"
  random_randint :: "'r \<Rightarrow> nat \<Rightarrow> nat \<Rightarrow> nat list \<times> 'r"
  predict :: "'p \<Rightarrow> matrix \<Rightarrow> matrix"
  step_dis :: "adam \<Rightarrow> 'p \<Rightarrow> matrix \<Rightarrow> rat list \<Rightarrow> 'p"
  step_gen :: "adam \<Rightarrow> 'p \<Rightarrow> 'p \<Rightarrow> matrix \<Rightarrow> rat list \<Rightarrow> 'p"
  step_both :: "adam \<Rightarrow> 'p \<Rightarrow> 'p \<Rightarrow> matrix \<Rightarrow> rat list \<Rightarrow> 'p \<times> 'p"

definition generator_layers :: "layer list" where
  "generator_layers =
     [Dense 256 (Some random_dim) (Some (2 / 100)) Linear, LeakyReLU (2 / 10),
      Dense 512 None None Linear, LeakyReLU (2 / 10),
      Dense 1024 None None Linear, LeakyReLU (2 / 10),
      Dense 784 None None Tanh]"

definition get_generator :: "('r, 'p) framework \<Rightarrow> nat \<Rightarrow> 'p model" where
  "get_generator fw optimizer' =
     \<lparr>layers = generator_layers, weights = init_weights fw generator_layers,
      loss = ''binary_crossentropy'', optimizer = optimizer', trainable = True\<rparr>"

definition discriminator_layers :: "layer list" where
  "discriminator_layers =
     [Dense 1024 (Some 784) (Some (2 / 100)) Linear, LeakyReLU (2 / 10), Dropout (3 / 10),
      Dense 512 None None Linear, LeakyReLU (2 / 10), Dropout (3 / 10),
      Dense 256 None None Linear, LeakyReLU (2 / 10), Dropout (3 / 10),
      Dense 1 None None Sigmoid]"

definition get_discriminator :: "('r, 'p) framework \<Rightarrow> nat \<Rightarrow> 'p model" where
  "get_discriminator fw optimizer' =
     \<lparr>layers = discriminator_layers, weights = init_weights fw discriminator_layers,
      loss = ''binary_crossentropy'', optimizer = optimizer', trainable = True\<rparr>"

text \<open>
  \<^verbatim>\<open>get_gan_network\<close> writes \<^verbatim>\<open>discriminator.trainable = False\<close> and builds the composite
  network over the two given networks (it shares them, it does not copy them). The
  model returns the composite together with the discriminator as it is after the write.
\<close>

definition get_gan_network ::
  "'p model \<Rightarrow> nat \<Rightarrow> 'p model \<Rightarrow> nat \<Rightarrow> composite \<times> 'p model" where
  "get_gan_network discriminator' random_dim' generator' optimizer' =
     (\<lparr>gan_input_dim = random_dim', gan_loss = ''binary_crossentropy'',
       gan_optimizer = optimizer'\<rparr>,
      discriminator'\<lparr>trainable := False\<rparr>)"

section \<open>The state of a training run\<close>

text \<open>
  The trace records, in program order, the flag writes, the optimiser calls, the
  epoch banners and the calls of \<^verbatim>\<open>plot_generated_images\<close>.
\<close>

datatype event =
    Print_epoch int
  | Set_trainable bool
  | Dis_train_on_batch matrix "rat list"
  | Gan_train_on_batch matrix "rat list"
  | Plot_generated_images int

record ('r, 'p) gan_state =
  rng :: 'r
  optimizers :: "adam list"
  generator :: "'p model"
  discriminator :: "'p model"
  gan :: composite
  files :: "string \<rightharpoonup> matrix"
  trace :: "event list"

definition emit :: "event \<Rightarrow> ('r, 'p) gan_state \<Rightarrow> ('r, 'p) gan_state" where
  "emit ev s = s\<lparr>trace := trace s @ [ev]\<rparr>"

text \<open>The assignment \<^verbatim>\<open>discriminator.trainable = b\<close>.\<close>

definition set_trainable :: "bool \<Rightarrow> ('r, 'p) gan_state \<Rightarrow> ('r, 'p) gan_state" where
  "set_trainable b s = emit (Set_trainable b) (s\<lparr>discriminator := (discriminator s)\<lparr>trainable := b\<rparr>\<rparr>)"

text \<open>
  Modelled from the spec: the framework's \<^verbatim>\<open>train_on_batch\<close> is not part of the script.
  The spec defines the Trainable Flag as the gate that decides whether a network's
  parameters receive updates during an optimiser call: the discriminator's own step
  updates its weights when the flag is set, and the step on the composite network
  updates the generator's weights, and the discriminator's only when the flag is set.
\<close>

definition dis_train_on_batch ::
  "('r, 'p) framework \<Rightarrow> matrix \<Rightarrow> rat list \<Rightarrow> ('r, 'p) gan_state \<Rightarrow> ('r, 'p) gan_state" where
  "dis_train_on_batch fw X y s =
     (let d = discriminator s; s' = emit (Dis_train_on_batch X y) s
      in if trainable d
         then s'\<lparr>discriminator := d\<lparr>weights := step_dis fw (optimizers s ! optimizer d) (weights d) X y\<rparr>\<rparr>
         else s')"

definition gan_train_on_batch ::
  "('r, 'p) framework \<Rightarrow> matrix \<Rightarrow> rat list \<Rightarrow> ('r, 'p) gan_state \<Rightarrow> ('r, 'p) gan_state" where
  "gan_train_on_batch fw noise y s =
     (let g = generator s; d = discriminator s; opt = optimizers s ! gan_optimizer (gan s);
          s' = emit (Gan_train_on_batch noise y) s
      in if trainable d
         then (let (gw, dw) = step_both fw opt (weights g) (weights d) noise y
               in s'\<lparr>generator := g\<lparr>weights := gw\<rparr>, discriminator := d\<lparr>weights := dw\<rparr>\<rparr>)
         else s'\<lparr>generator := g\<lparr>weights := step_gen fw opt (weights g) (weights d) noise y\<rparr>\<rparr>)"

section \<open>Rendering\<close>

text \<open>The conversion \<^verbatim>\<open>'%d' % n\<close> of an integer to decimal digits.\<close>

definition digit_char :: "nat \<Rightarrow> char" where
  "digit_char n = char_of (48 + n)"

function show_nat :: "nat \<Rightarrow> string" where
  "show_nat n = (if n < 10 then [digit_char n] else show_nat (n div 10) @ [digit_char (n mod 10)])"
  by pat_completeness auto
termination
  by (relation "measure id") auto

definition show_int :: "int \<Rightarrow> string" where
  "show_int i = (if i < 0 then CHR ''-'' # show_nat (nat (- i)) else show_nat (nat i))"

text \<open>
  \<^verbatim>\<open>
  def plot_generated_images(epoch, generator, examples=100, dim=(10, 10), figsize=(10, 10)):
      noise = np.random.normal(0, 1, size=[examples, random_dim])
      generated_images = generator.predict(noise)
      generated_images = generated_images.reshape(examples, 28, 28)
      ...
      plt.savefig('gan_generated_image_epoch_%d.png' % epoch)
  \<close>
  The file holds the grid of the generated images; writing it replaces a file of the
  same name.
\<close>

definition plot_generated_images ::
  "('r, 'p) framework \<Rightarrow> int \<Rightarrow> ('r, 'p) gan_state \<Rightarrow> ('r, 'p) gan_state" where
  "plot_generated_images fw epoch s =
     (let examples = 100;
          (noise, r) = random_normal fw (rng s) examples random_dim;
          generated_images = predict fw (weights (generator s)) noise;
          name = ''gan_generated_image_epoch_'' @ show_int epoch @ ''.png''
      in emit (Plot_generated_images epoch)
           (s\<lparr>rng := r, files := (files s)(name \<mapsto> generated_images)\<rparr>))"

section \<open>The training loop\<close>

definition np_zeros :: "nat \<Rightarrow> rat list" where
  "np_zeros n = replicate n 0"

definition np_ones :: "nat \<Rightarrow> rat list" where
  "np_ones n = replicate n 1"

text \<open>The slice assignment \<^verbatim>\<open>xs[:k] = v\<close>.\<close>

definition slice_fill :: "rat list \<Rightarrow> nat \<Rightarrow> rat \<Rightarrow> rat list" where
  "slice_fill xs k v = replicate (min k (length xs)) v @ drop k xs"

definition np_concatenate :: "matrix \<Rightarrow> matrix \<Rightarrow> matrix" where
  "np_concatenate a b = a @ b"

text \<open>
  Lines 122 to 126 of \<^verbatim>\<open>train\<close>: the noise, the real images drawn with replacement
  (\<^verbatim>\<open>x_train[np.random.randint(0, x_train.shape[0], size=batch_size)]\<close>) and the
  generated images. The result is the pair of batches and the generator state.
\<close>

definition draw_batches ::
  "('r, 'p) framework \<Rightarrow> rat ndarray \<Rightarrow> nat \<Rightarrow> ('r, 'p) gan_state \<Rightarrow> matrix \<times> matrix \<times> 'r" where
  "draw_batches fw x_train batch_size s =
     (let (noise, r1) = random_normal fw (rng s) batch_size random_dim;
          (idx, r2) = random_randint fw r1 (hd (shape x_train)) batch_size;
          image_batch = map (nd_row x_train) idx;
          generated_images = predict fw (weights (generator s)) noise
      in (image_batch, generated_images, r2))"

text \<open>
  \<^verbatim>\<open>
  X = np.concatenate([image_batch, generated_images])
  y_dis = np.zeros(2 * batch_size)
  y_dis[:batch_size] = 0.9
  discriminator.trainable = True
  discriminator.train_on_batch(X, y_dis)
  \<close>
\<close>

definition y_dis_labels :: "nat \<Rightarrow> rat list" where
  "y_dis_labels batch_size = slice_fill (np_zeros (2 * batch_size)) batch_size (9 / 10)"

definition dis_phase ::
  "('r, 'p) framework \<Rightarrow> rat ndarray \<Rightarrow> nat \<Rightarrow> ('r, 'p) gan_state \<Rightarrow> ('r, 'p) gan_state" where
  "dis_phase fw x_train batch_size s =
     (let (image_batch, generated_images, r) = draw_batches fw x_train batch_size s;
          X = np_concatenate image_batch generated_images;
          y_dis = y_dis_labels batch_size
      in dis_train_on_batch fw X y_dis (set_trainable True (s\<lparr>rng := r\<rparr>)))"

text \<open>
  \<^verbatim>\<open>
  noise = np.random.normal(0, 1, size=[batch_size, random_dim])
  y_gen = np.ones(batch_size)
  discriminator.trainable = False
  gan.train_on_batch(noise, y_gen)
  \<close>
\<close>

definition gen_phase ::
  "('r, 'p) framework \<Rightarrow> nat \<Rightarrow> ('r, 'p) gan_state \<Rightarrow> ('r, 'p) gan_state" where
  "gen_phase fw batch_size s =
     (let (noise, r) = random_normal fw (rng s) batch_size random_dim;
          y_gen = np_ones batch_size
      in gan_train_on_batch fw noise y_gen (set_trainable False (s\<lparr>rng := r\<rparr>)))"

definition batch_step ::
  "('r, 'p) framework \<Rightarrow> rat ndarray \<Rightarrow> nat \<Rightarrow> ('r, 'p) gan_state \<Rightarrow> ('r, 'p) gan_state" where
  "batch_step fw x_train batch_size s = gen_phase fw batch_size (dis_phase fw x_train batch_size s)"

text \<open>
  One pass of the body of \<^verbatim>\<open>for e in range(1, epochs + 1)\<close>: the banner, the loop
  \<^verbatim>\<open>for _ in tqdm(range(batch_count))\<close>, and the rendering when
  \<^verbatim>\<open>e == 1 or e % 20 == 0\<close>.
\<close>

definition epoch ::
  "('r, 'p) framework \<Rightarrow> rat ndarray \<Rightarrow> int \<Rightarrow> nat \<Rightarrow> int \<Rightarrow> ('r, 'p) gan_state \<Rightarrow> ('r, 'p) gan_state" where
  "epoch fw x_train batch_count batch_size e s =
     (let s1 = emit (Print_epoch e) s;
          s2 = (batch_step fw x_train batch_size ^^ nat batch_count) s1
      in if e = 1 \<or> e mod 20 = 0 then plot_generated_images fw e s2 else s2)"

text \<open>Line 110, \<^verbatim>\<open>batch_count = int(x_train.shape[0] / batch_size)\<close>.\<close>

definition batch_count_of :: "nat \<Rightarrow> int \<Rightarrow> py_error + int" where
  "batch_count_of n batch_size =
     (case py_truediv (int n) batch_size of Inl e \<Rightarrow> Inl e | Inr q \<Rightarrow> Inr (py_int q))"

text \<open>
  Lines 113 to 116: the optimiser and the three networks. The store of optimisers
  is empty before, as is the trace; the random generator and the files are as the
  caller has them.
\<close>

definition train_setup ::
  "('r, 'p) framework \<Rightarrow> 'r \<Rightarrow> (string \<rightharpoonup> matrix) \<Rightarrow> ('r, 'p) gan_state" where
  "train_setup fw rng0 files0 =
     (let (adam, heap) = get_optimizer [];
          generator' = get_generator fw adam;
          discriminator' = get_discriminator fw adam;
          (gan', discriminator'') = get_gan_network discriminator' random_dim generator' adam
      in \<lparr>rng = rng0, optimizers = heap, generator = generator',
          discriminator = discriminator'', gan = gan', files = files0,
          trace = [Set_trainable False]\<rparr>)"

text \<open>
  \<^verbatim>\<open>train(epochs, batch_size)\<close>. The sizes of the batches are natural numbers in the loop
  body: the body runs only when \<^verbatim>\<open>batch_count\<close> is positive, and then \<^verbatim>\<open>batch_size\<close> is.
\<close>

definition train ::
  "('r, 'p) framework \<Rightarrow> mnist_data \<Rightarrow> 'r \<Rightarrow> (string \<rightharpoonup> matrix) \<Rightarrow> int \<Rightarrow> int
     \<Rightarrow> py_error + ('r, 'p) gan_state" where
  "train fw mnist rng0 files0 epochs batch_size =
     (case load_minst_data mnist of
        Inl err \<Rightarrow> Inl err
      | Inr (x_train, y_train, x_test, y_test) \<Rightarrow>
          (case batch_count_of (hd (shape x_train)) batch_size of
             Inl err \<Rightarrow> Inl err
           | Inr batch_count \<Rightarrow>
               Inr (fold (epoch fw x_train batch_count (nat batch_size)) [1..epochs]
                      (train_setup fw rng0 files0))))"

section \<open>Reading a trace\<close>

fun is_dis_step :: "event \<Rightarrow> bool" where
  "is_dis_step (Dis_train_on_batch X y) = True"
| "is_dis_step _ = False"

fun is_gan_step :: "event \<Rightarrow> bool" where
  "is_gan_step (Gan_train_on_batch n y) = True"
| "is_gan_step _ = False"

fun is_flag_write :: "event \<Rightarrow> bool" where
  "is_flag_write (Set_trainable b) = True"
| "is_flag_write _ = False"

text \<open>The epochs for which the images were rendered, in order.\<close>

fun rendered :: "event list \<Rightarrow> int list" where
  "rendered [] = []"
| "rendered (Plot_generated_images e # evs) = e # rendered evs"
| "rendered (_ # evs) = rendered evs"

text \<open>The events a piece of the program added to the trace.\<close>

definition new_events :: "('r, 'p) gan_state \<Rightarrow> ('r, 'p) gan_state \<Rightarrow> event list" where
  "new_events s s' = drop (length (trace s)) (trace s')"

text \<open>
  Every optimiser call comes directly after a flag write: the discriminator's after
  the flag is set, the composite network's after it is cleared.
\<close>

fun flag_discipline :: "event list \<Rightarrow> bool" where
  "flag_discipline [] = True"
| "flag_discipline (Set_trainable b # Dis_train_on_batch X y # evs) = (b \<and> flag_discipline evs)"
| "flag_discipline (Set_trainable b # Gan_train_on_batch n y # evs) = (\<not> b \<and> flag_discipline evs)"
| "flag_discipline (Dis_train_on_batch X y # evs) = False"
| "flag_discipline (Gan_train_on_batch n y # evs) = False"
| "flag_discipline (_ # evs) = flag_discipline evs"

text \<open>How often the flag changes its value along a trace, from a given value.\<close>

fun toggles :: "bool \<Rightarrow> event list \<Rightarrow> nat" where
  "toggles b [] = 0"
| "toggles b (Set_trainable b' # evs) = (if b' = b then 0 else 1) + toggles b' evs"
| "toggles b (_ # evs) = toggles b evs"

section \<open>The shape of a trace\<close>

text \<open>
  The batches and the noise in a trace depend on the random draws; everything else is
  fixed by the batch size, the batch count and the number of epochs. \<open>erase\<close> drops the
  batches, and \<open>expected_trace\<close> is what remains of the trace of a run.
\<close>

fun erase :: "event \<Rightarrow> event" where
  "erase (Dis_train_on_batch X y) = Dis_train_on_batch [] y"
| "erase (Gan_train_on_batch n y) = Gan_train_on_batch [] y"
| "erase ev = ev"

definition block :: "nat \<Rightarrow> event list" where
  "block batch_size =
     [Set_trainable True, Dis_train_on_batch [] (y_dis_labels batch_size),
      Set_trainable False, Gan_train_on_batch [] (np_ones batch_size)]"

definition epoch_events :: "int \<Rightarrow> nat \<Rightarrow> int \<Rightarrow> event list" where
  "epoch_events batch_count batch_size e =
     Print_epoch e # concat (replicate (nat batch_count) (block batch_size))
       @ (if e = 1 \<or> e mod 20 = 0 then [Plot_generated_images e] else [])"

definition expected_trace :: "int \<Rightarrow> nat \<Rightarrow> int \<Rightarrow> event list" where
  "expected_trace batch_count batch_size epochs =
     Set_trainable False # concat (map (epoch_events batch_count batch_size) [1..epochs])"

definition no_files :: "string \<rightharpoonup> matrix" where
  "no_files = Map.empty"

section \<open>A small framework to run the model on\<close>

text \<open>
  Weights are counters of the updates they received, the random generator counts its
  draws, every draw is zero, and the forward pass returns rows of 784 zeros.
\<close>

definition counting_framework :: "(nat, nat) framework" where
  "counting_framework =
     \<lparr>init_weights = (\<lambda>ls. 0),
      random_normal = (\<lambda>r n d. (replicate n (replicate d 0), Suc r)),
      random_randint = (\<lambda>r hi n. (replicate n 0, Suc r)),
      predict = (\<lambda>w x. map (\<lambda>row. replicate 784 0) x),
      step_dis = (\<lambda>opt w X y. Suc w),
      step_gen = (\<lambda>opt g d n y. Suc g),
      step_both = (\<lambda>opt g d n y. (Suc g, Suc d))\<rparr>"

section \<open>Properties of dataset loading\<close>

lemma unat_byte_le: "unat (v :: 8 word) \<le> 255"
  using unsigned_less [of v, where ?'a = nat] by simp

lemma normalize_pixel_255: "normalize_pixel 255 = 1"
  by (simp add: normalize_pixel_def)

lemma normalize_pixel_bounds: "- 1 \<le> normalize_pixel v \<and> normalize_pixel v \<le> 1"
proof -
  have "(of_nat (unat v) :: rat) \<le> of_nat 255"
    using unat_byte_le [of v] by (simp only: of_nat_le_iff)
  then have "(of_nat (unat v) :: rat) \<le> 255"
    by simp
  moreover have "(0 :: rat) \<le> of_nat (unat v)"
    by (rule of_nat_0_le_iff)
  ultimately show ?thesis
    unfolding normalize_pixel_def by (simp add: field_simps del: of_nat_unat)
qed

lemma load_minst_data_Inr:
  assumes "load_minst_data m = Inr (x_train, y_train, x_test, y_test)"
  shows "shape x_train = [60000, 784]"
    and "data x_train = map normalize_pixel (data (raw_x_train m))"
    and "length (data x_train) = 47040000"
    and "y_train = raw_y_train m" and "x_test = raw_x_test m" and "y_test = raw_y_test m"
  using assms
  by (auto simp: load_minst_data_def reshape_def Let_def split: if_splits)

lemma load_minst_data_mnist_const:
  "load_minst_data (mnist_const v) =
     Inr (\<lparr>shape = [60000, 784], data = replicate 47040000 (normalize_pixel v)\<rparr>,
          \<lparr>shape = [60000], data = replicate 60000 v\<rparr>,
          \<lparr>shape = [10000, 28, 28], data = replicate 7840000 v\<rparr>,
          \<lparr>shape = [10000], data = replicate 10000 v\<rparr>)"
  by (simp add: load_minst_data_def mnist_const_def reshape_def)

text \<open>
  Claim C7. Loading maps every raw byte \<open>v\<close> of the training images through
  \<open>(v - 127.5) / 127.5\<close>; every component of every loaded training sample lies in
  \<open>[-1, 1]\<close>, and each of the 60000 samples is a flat vector of length 784.
\<close>

theorem load_minst_data_normalized:
  assumes "load_minst_data m = Inr (x_train, y_train, x_test, y_test)"
  shows "data x_train = map (\<lambda>v. (of_nat (unat v) - 255 / 2) / (255 / 2)) (data (raw_x_train m))
       \<and> shape x_train = [60000, 784]
       \<and> (\<forall>i < 60000. length (nd_row x_train i) = 784
            \<and> (\<forall>c \<in> set (nd_row x_train i). - 1 \<le> c \<and> c \<le> 1))"
proof -
  note r = load_minst_data_Inr [OF assms]
  have "data x_train = map (\<lambda>v. (of_nat (unat v) - 255 / 2) / (255 / 2)) (data (raw_x_train m))"
    using r(2) by (simp add: normalize_pixel_def [abs_def])
  moreover have "length (nd_row x_train i) = 784" if "i < 60000" for i
  proof -
    have "i * 784 + 784 \<le> length (data x_train)"
      using that r(3) by simp
    then show ?thesis
      by (simp add: nd_row_def r(1))
  qed
  moreover have "- 1 \<le> c \<and> c \<le> 1" if "c \<in> set (nd_row x_train i)" for c i
  proof -
    have "c \<in> set (data x_train)"
      using that by (auto simp: nd_row_def dest: in_set_takeD in_set_dropD)
    then show ?thesis
      using r(2) normalize_pixel_bounds by auto
  qed
  ultimately show ?thesis
    using r(1) by blast
qed

theorem load_minst_data_normalized_witness:
  "load_minst_data (mnist_const 255) =
     Inr (\<lparr>shape = [60000, 784], data = replicate 47040000 1\<rparr>,
          raw_y_train (mnist_const 255), raw_x_test (mnist_const 255), raw_y_test (mnist_const 255))
   \<and> length (nd_row \<lparr>shape = [60000, 784], data = replicate 47040000 (1 :: rat)\<rparr> 59999) = 784"
proof -
  have l: "load_minst_data (mnist_const 255) =
     Inr (\<lparr>shape = [60000, 784], data = replicate 47040000 1\<rparr>,
          raw_y_train (mnist_const 255), raw_x_test (mnist_const 255), raw_y_test (mnist_const 255))"
    unfolding load_minst_data_mnist_const normalize_pixel_255 by (simp add: mnist_const_def)
  have "(59999 :: nat) < 60000"
    by simp
  with load_minst_data_normalized [OF l]
  have "length (nd_row \<lparr>shape = [60000, 784], data = replicate 47040000 (1 :: rat)\<rparr> 59999) = 784"
    by blast
  with l show ?thesis
    by (rule conjI)
qed

text \<open>
  Claim C10. Only the training images are normalised and flattened: the test images
  are returned as loaded, bytes in \<open>[0, 255]\<close> in their original shape, and neither
  label array is transformed.
\<close>

theorem load_minst_data_test_split_untouched:
  assumes "load_minst_data m = Inr (x_train, y_train, x_test, y_test)"
  shows "x_test = raw_x_test m \<and> y_train = raw_y_train m \<and> y_test = raw_y_test m
       \<and> (\<forall>v \<in> set (data x_test). unat v \<le> 255)
       \<and> (shape (raw_x_test m) = [10000, 28, 28] \<longrightarrow> shape x_test = [10000, 28, 28])
       \<and> shape x_train = [60000, 784]
       \<and> data x_train = map normalize_pixel (data (raw_x_train m))"
proof -
  note r = load_minst_data_Inr [OF assms]
  show ?thesis
    using r unat_byte_le by simp
qed

theorem load_minst_data_test_split_untouched_witness:
  "\<exists>x_train. load_minst_data (mnist_const 7) =
      Inr (x_train, \<lparr>shape = [60000], data = replicate 60000 7\<rparr>,
           \<lparr>shape = [10000, 28, 28], data = replicate 7840000 7\<rparr>,
           \<lparr>shape = [10000], data = replicate 10000 7\<rparr>)
    \<and> shape x_train = [60000, 784]"
proof -
  have l: "load_minst_data (mnist_const 7) =
     Inr (\<lparr>shape = [60000, 784], data = replicate 47040000 (normalize_pixel 7)\<rparr>,
          \<lparr>shape = [60000], data = replicate 60000 7\<rparr>,
          \<lparr>shape = [10000, 28, 28], data = replicate 7840000 7\<rparr>,
          \<lparr>shape = [10000], data = replicate 10000 7\<rparr>)"
    by (rule load_minst_data_mnist_const)
  from load_minst_data_test_split_untouched [OF l]
  have "shape \<lparr>shape = [60000, 784], data = replicate 47040000 (normalize_pixel 7)\<rparr> = [60000, 784]"
    by blast
  with l show ?thesis
    by blast
qed

section \<open>The trace of a training run\<close>

lemma y_dis_labels_eq: "y_dis_labels B = replicate B (9 / 10) @ replicate B 0"
  by (simp add: y_dis_labels_def slice_fill_def np_zeros_def)

lemma trace_emit: "trace (emit ev s) = trace s @ [ev]"
  by (simp add: emit_def)

lemma trace_set_trainable: "trace (set_trainable b s) = trace s @ [Set_trainable b]"
  by (simp add: set_trainable_def emit_def)

lemma trace_dis_train_on_batch:
  "trace (dis_train_on_batch fw X y s) = trace s @ [Dis_train_on_batch X y]"
  by (simp add: dis_train_on_batch_def emit_def Let_def)

lemma trace_gan_train_on_batch:
  "trace (gan_train_on_batch fw n y s) = trace s @ [Gan_train_on_batch n y]"
  by (simp add: gan_train_on_batch_def emit_def Let_def split_beta)

lemma trace_dis_phase:
  "trace (dis_phase fw x B s) =
     trace s @ [Set_trainable True,
       Dis_train_on_batch (fst (draw_batches fw x B s) @ fst (snd (draw_batches fw x B s)))
         (y_dis_labels B)]"
  by (simp add: dis_phase_def Let_def split_beta trace_dis_train_on_batch trace_set_trainable
      np_concatenate_def)

lemma trace_gen_phase:
  "trace (gen_phase fw B s) =
     trace s @ [Set_trainable False,
       Gan_train_on_batch (fst (random_normal fw (rng s) B random_dim)) (np_ones B)]"
  by (simp add: gen_phase_def Let_def split_beta trace_gan_train_on_batch trace_set_trainable)

lemma erased_batch_step:
  "map erase (trace (batch_step fw x B s)) = map erase (trace s) @ block B"
  by (simp add: batch_step_def trace_gen_phase trace_dis_phase block_def)

lemma erased_funpow:
  "map erase (trace ((batch_step fw x B ^^ n) s)) =
     map erase (trace s) @ concat (replicate n (block B))"
proof (induction n)
  case 0
  show ?case by simp
next
  case (Suc n)
  have "concat (replicate n (block B)) @ block B = block B @ concat (replicate n (block B))"
    by (induction n) simp_all
  then show ?case
    using Suc by (simp add: erased_batch_step)
qed

lemma trace_plot: "trace (plot_generated_images fw e s) = trace s @ [Plot_generated_images e]"
  by (simp add: plot_generated_images_def Let_def split_beta trace_emit)

lemma erased_epoch:
  "map erase (trace (epoch fw x bc B e s)) = map erase (trace s) @ epoch_events bc B e"
  by (simp add: epoch_def Let_def trace_plot erased_funpow trace_emit epoch_events_def)

lemma erased_fold:
  "map erase (trace (fold (epoch fw x bc B) es s)) =
     map erase (trace s) @ concat (map (epoch_events bc B) es)"
  by (induction es arbitrary: s) (simp_all add: erased_epoch)

lemma trace_train_setup: "trace (train_setup fw r f) = [Set_trainable False]"
  by (simp add: train_setup_def Let_def split_beta)

lemma batch_count_of_zero: "batch_count_of n 0 = Inl ZeroDivisionError"
  by (simp add: batch_count_of_def py_truediv_def)

lemma batch_count_of_pos:
  assumes "0 < b"
  shows "batch_count_of n b = Inr (int n div b)"
proof -
  have "(0 :: rat) \<le> of_int (int n) / of_int b"
    using assms by simp
  then have "py_int (of_int (int n) / of_int b) = \<lfloor>(of_int (int n) :: rat) / of_int b\<rfloor>"
    by (simp only: py_int_def if_True)
  also have "\<dots> = int n div b"
    by (rule floor_divide_of_int_eq)
  finally show ?thesis
    using assms by (simp add: batch_count_of_def py_truediv_def)
qed

lemma batch_count_of_neg:
  assumes "b < 0"
  shows "\<exists>bc. batch_count_of n b = Inr bc \<and> bc \<le> 0"
proof -
  have q: "(of_int (int n) :: rat) / of_int b \<le> 0"
    using assms by (simp add: divide_nonneg_neg divide_le_0_iff)
  have "py_int (of_int (int n) / of_int b) \<le> 0"
  proof (cases "(0 :: rat) \<le> of_int (int n) / of_int b")
    case True
    with q have z: "(of_int (int n) :: rat) / of_int b = 0" by (rule order.antisym)
    show ?thesis unfolding z by (simp add: py_int_def)
  next
    case False
    then have "py_int (of_int (int n) / of_int b) = \<lceil>(of_int (int n) :: rat) / of_int b\<rceil>"
      by (simp add: py_int_def)
    also have "\<dots> \<le> 0"
      using q by simp
    finally show ?thesis .
  qed
  then show ?thesis
    using assms by (simp add: batch_count_of_def py_truediv_def)
qed

lemma batch_count_of_cases:
  assumes "batch_count_of n b = Inr bc"
  shows "b \<noteq> 0 \<and> nat bc = (if 0 < b then n div nat b else 0)"
proof -
  consider "b = 0" | "0 < b" | "b < 0" by linarith
  then show ?thesis
  proof cases
    case 1
    with assms show ?thesis by (simp add: batch_count_of_zero)
  next
    case 2
    with assms batch_count_of_pos [OF 2, of n] have "bc = int n div b" by simp
    with 2 show ?thesis
      by (simp add: nat_div_distrib)
  next
    case 3
    with assms batch_count_of_neg [OF 3, of n] show ?thesis by auto
  qed
qed

lemma train_cases:
  assumes "train fw m r f N b = Inr s"
  obtains x_train y_train x_test y_test bc where
    "load_minst_data m = Inr (x_train, y_train, x_test, y_test)"
    "batch_count_of 60000 b = Inr bc"
    "s = fold (epoch fw x_train bc (nat b)) [1..N] (train_setup fw r f)"
proof -
  from assms obtain x_train y_train x_test y_test where
    l: "load_minst_data m = Inr (x_train, y_train, x_test, y_test)"
    by (cases "load_minst_data m") (auto simp: train_def)
  have sh: "hd (shape x_train) = 60000"
    using load_minst_data_Inr(1) [OF l] by simp
  from assms l sh obtain bc where
    b: "batch_count_of 60000 b = Inr bc"
    by (cases "batch_count_of 60000 b") (auto simp: train_def)
  from assms l sh b
  have "s = fold (epoch fw x_train bc (nat b)) [1..N] (train_setup fw r f)"
    by (simp add: train_def)
  with l b show ?thesis
    by (rule that)
qed

lemma train_succeeds:
  assumes "load_minst_data m = Inr (x_train, y_train, x_test, y_test)"
    and "batch_count_of 60000 b = Inr bc"
  shows "train fw m r f N b = Inr (fold (epoch fw x_train bc (nat b)) [1..N] (train_setup fw r f))"
  using assms load_minst_data_Inr(1) [OF assms(1)] by (simp add: train_def)

lemma erased_train:
  assumes "train fw m r f N b = Inr s"
  obtains bc where "batch_count_of 60000 b = Inr bc"
    and "map erase (trace s) = expected_trace bc (nat b) N"
proof -
  from assms obtain x_train :: "rat ndarray" and bc where
    b: "batch_count_of 60000 b = Inr bc" and
    s: "s = fold (epoch fw x_train bc (nat b)) [1..N] (train_setup fw r f)"
    by (rule train_cases)
  have "map erase (trace s) = expected_trace bc (nat b) N"
    by (simp add: s erased_fold trace_train_setup expected_trace_def)
  with b show ?thesis
    by (rule that)
qed

lemma rendered_erase: "rendered (map erase evs) = rendered evs"
  by (induction evs rule: rendered.induct) simp_all

lemma is_dis_step_erase: "is_dis_step (erase ev) = is_dis_step ev"
  by (cases ev) simp_all

lemma is_gan_step_erase: "is_gan_step (erase ev) = is_gan_step ev"
  by (cases ev) simp_all

lemma is_flag_write_erase: "is_flag_write (erase ev) = is_flag_write ev"
  by (cases ev) simp_all

lemma flag_discipline_erase: "flag_discipline (map erase evs) = flag_discipline evs"
  by (induction evs rule: flag_discipline.induct) simp_all

lemma toggles_erase: "toggles b (map erase evs) = toggles b evs"
  by (induction b evs rule: toggles.induct) simp_all

lemma count_erase:
  assumes "\<And>ev. p (erase ev) = p ev"
  shows "length (filter p (map erase evs)) = length (filter p evs)"
  by (induction evs) (simp_all add: assms)

lemma rendered_append: "rendered (xs @ ys) = rendered xs @ rendered ys"
  by (induction xs rule: rendered.induct) simp_all

lemma rendered_blocks: "rendered (concat (replicate n (block B))) = []"
  by (induction n) (simp_all add: block_def)

lemma rendered_epoch_events:
  "rendered (epoch_events bc B e) = (if e = 1 \<or> e mod 20 = 0 then [e] else [])"
  by (simp add: epoch_events_def rendered_append rendered_blocks)

lemma rendered_epochs:
  "rendered (concat (map (epoch_events bc B) es)) = filter (\<lambda>e. e = 1 \<or> e mod 20 = 0) es"
  by (induction es) (simp_all add: rendered_append rendered_epoch_events)

lemma rendered_expected:
  "rendered (expected_trace bc B N) = filter (\<lambda>e. e = 1 \<or> e mod 20 = 0) [1..N]"
  by (simp add: expected_trace_def rendered_epochs)

lemma count_blocks:
  "length (filter is_dis_step (concat (replicate n (block B)))) = n"
  "length (filter is_gan_step (concat (replicate n (block B)))) = n"
  "length (filter is_flag_write (concat (replicate n (block B)))) = 2 * n"
  by (induction n) (simp_all add: block_def)

lemma count_epoch_events:
  "length (filter is_dis_step (epoch_events bc B e)) = nat bc"
  "length (filter is_gan_step (epoch_events bc B e)) = nat bc"
  "length (filter is_flag_write (epoch_events bc B e)) = 2 * nat bc"
  by (simp_all add: epoch_events_def count_blocks)

lemma count_epochs:
  "length (filter is_dis_step (concat (map (epoch_events bc B) es))) = length es * nat bc"
  "length (filter is_gan_step (concat (map (epoch_events bc B) es))) = length es * nat bc"
  "length (filter is_flag_write (concat (map (epoch_events bc B) es))) = 2 * (length es * nat bc)"
  by (induction es) (simp_all add: count_epoch_events algebra_simps)

lemma count_expected:
  "length (filter is_dis_step (expected_trace bc B N)) = nat N * nat bc"
  "length (filter is_gan_step (expected_trace bc B N)) = nat N * nat bc"
  "length (filter is_flag_write (expected_trace bc B N)) = 1 + 2 * (nat N * nat bc)"
  by (simp_all add: expected_trace_def count_epochs)

lemma flag_discipline_blocks:
  "flag_discipline (concat (replicate n (block B)) @ evs) = flag_discipline evs"
  by (induction n) (simp_all add: block_def)

lemma flag_discipline_epoch_events:
  "flag_discipline (epoch_events bc B e @ evs) = flag_discipline evs"
  by (simp add: epoch_events_def flag_discipline_blocks)

lemma flag_discipline_epochs:
  "flag_discipline (concat (map (epoch_events bc B) es))"
  by (induction es) (simp_all add: flag_discipline_epoch_events)

lemma flag_discipline_expected: "flag_discipline (expected_trace bc B N)"
proof (cases "[1..N]")
  case Nil
  then show ?thesis by (simp add: expected_trace_def)
next
  case (Cons e es)
  have "flag_discipline (concat (map (epoch_events bc B) (e # es)))"
    by (rule flag_discipline_epochs)
  then show ?thesis
    by (simp add: expected_trace_def Cons epoch_events_def)
qed

lemma toggles_blocks:
  "toggles False (concat (replicate n (block B)) @ evs) = 2 * n + toggles False evs"
  by (induction n) (simp_all add: block_def)

lemma toggles_epoch_events:
  "toggles False (epoch_events bc B e @ evs) = 2 * nat bc + toggles False evs"
  by (simp add: epoch_events_def toggles_blocks)

lemma toggles_epochs:
  "toggles False (concat (map (epoch_events bc B) es)) = 2 * (length es * nat bc)"
  by (induction es) (simp_all add: toggles_epoch_events algebra_simps)

lemma toggles_expected: "toggles True (expected_trace bc B N) = 1 + 2 * (nat N * nat bc)"
  by (simp add: expected_trace_def toggles_epochs)

lemma new_events_append: "trace s' = trace s @ evs \<Longrightarrow> new_events s s' = evs"
  by (simp add: new_events_def)

lemma erased_new_events:
  assumes "map erase (trace s') = map erase (trace s) @ evs"
  shows "map erase (new_events s s') = evs"
proof -
  have "map erase (new_events s s') = drop (length (map erase (trace s))) (map erase (trace s'))"
    by (simp add: new_events_def drop_map)
  then show ?thesis
    by (simp add: assms)
qed

section \<open>The batches and labels of the discriminator step\<close>

lemma in_concat_replicate:
  "ev \<in> set (concat (replicate n xs)) \<Longrightarrow> 0 < n \<and> ev \<in> set xs"
  by (induction n) auto

lemma dis_step_in_expected:
  assumes "Dis_train_on_batch X y \<in> set (expected_trace bc B N)"
  shows "0 < nat bc \<and> y = y_dis_labels B"
proof -
  from assms obtain e where "Dis_train_on_batch X y \<in> set (epoch_events bc B e)"
    by (auto simp: expected_trace_def)
  then have "Dis_train_on_batch X y \<in> set (concat (replicate (nat bc) (block B)))"
    by (auto simp: epoch_events_def split: if_splits)
  then have "0 < nat bc \<and> Dis_train_on_batch X y \<in> set (block B)"
    by (rule in_concat_replicate)
  then show ?thesis
    by (simp add: block_def)
qed

lemma dis_step_in_train:
  assumes "train fw m r f N b = Inr s" and "Dis_train_on_batch X y \<in> set (trace s)"
  shows "0 < b \<and> y = y_dis_labels (nat b)"
proof -
  from assms(1) obtain bc where
    bc: "batch_count_of 60000 b = Inr bc" and
    tr: "map erase (trace s) = expected_trace bc (nat b) N"
    by (rule erased_train)
  have "erase (Dis_train_on_batch X y) \<in> set (map erase (trace s))"
    using assms(2) by (simp only: set_map) (rule imageI)
  then have "Dis_train_on_batch [] y \<in> set (expected_trace bc (nat b) N)"
    by (simp add: tr)
  then have "0 < nat bc \<and> y = y_dis_labels (nat b)"
    by (rule dis_step_in_expected)
  moreover have "nat bc = (if 0 < b then 60000 div nat b else 0)"
    using batch_count_of_cases [OF bc] by simp
  ultimately show ?thesis
    by (simp split: if_splits)
qed

lemma draw_batches_parts:
  "fst (draw_batches fw x B s) =
     map (nd_row x) (fst (random_randint fw (snd (random_normal fw (rng s) B random_dim)) (hd (shape x)) B))"
  "fst (snd (draw_batches fw x B s)) =
     predict fw (weights (generator s)) (fst (random_normal fw (rng s) B random_dim))"
  by (simp_all add: draw_batches_def Let_def split_beta)

text \<open>
  Claim C2. In a batch step the real images and the generated images are concatenated
  with the real images first, and the label vector of the discriminator has length
  \<open>2 * batch_size\<close>, its first \<open>batch_size\<close> entries \<open>0.9\<close> and the other
  \<open>batch_size\<close> entries \<open>0\<close>; every discriminator step of a run of \<^verbatim>\<open>train\<close> gets
  these labels, for a positive batch size. For \<open>batch_size = 128\<close> the length is 256,
  entries 0 to 127 are \<open>0.9\<close> and entries 128 to 255 are \<open>0\<close>.
\<close>

theorem dis_phase_batch_and_labels:
  "trace (dis_phase fw x_train B s) =
     trace s @ [Set_trainable True,
       Dis_train_on_batch (fst (draw_batches fw x_train B s) @ fst (snd (draw_batches fw x_train B s)))
         (y_dis_labels B)]
   \<and> fst (draw_batches fw x_train B s) =
       map (nd_row x_train)
         (fst (random_randint fw (snd (random_normal fw (rng s) B random_dim)) (hd (shape x_train)) B))
   \<and> fst (snd (draw_batches fw x_train B s)) =
       predict fw (weights (generator s)) (fst (random_normal fw (rng s) B random_dim))
   \<and> length (y_dis_labels B) = 2 * B
   \<and> (\<forall>i < B. y_dis_labels B ! i = 9 / 10)
   \<and> (\<forall>i. B \<le> i \<and> i < 2 * B \<longrightarrow> y_dis_labels B ! i = 0)
   \<and> (train fw m r f N b = Inr s' \<longrightarrow>
        (\<forall>X y. Dis_train_on_batch X y \<in> set (trace s') \<longrightarrow> 0 < b \<and> y = y_dis_labels (nat b)))"
proof -
  have "length (y_dis_labels B) = 2 * B"
    by (simp add: y_dis_labels_eq)
  moreover have "\<forall>i < B. y_dis_labels B ! i = 9 / 10"
    by (simp add: y_dis_labels_eq nth_append)
  moreover have "\<forall>i. B \<le> i \<and> i < 2 * B \<longrightarrow> y_dis_labels B ! i = 0"
    by (auto simp: y_dis_labels_eq nth_append)
  moreover have "train fw m r f N b = Inr s' \<longrightarrow>
        (\<forall>X y. Dis_train_on_batch X y \<in> set (trace s') \<longrightarrow> 0 < b \<and> y = y_dis_labels (nat b))"
  proof (intro impI allI)
    fix X y
    assume "train fw m r f N b = Inr s'" and "Dis_train_on_batch X y \<in> set (trace s')"
    then show "0 < b \<and> y = y_dis_labels (nat b)"
      by (rule dis_step_in_train)
  qed
  ultimately show ?thesis
    using trace_dis_phase [of fw x_train B s] draw_batches_parts [of fw x_train B s]
    by (intro conjI) assumption+
qed

lemma train_counting:
  assumes "0 < b"
  shows "train counting_framework (mnist_const v) 0 no_files N b =
    Inr (fold (epoch counting_framework
                 \<lparr>shape = [60000, 784], data = replicate 47040000 (normalize_pixel v)\<rparr>
                 (60000 div b) (nat b)) [1..N] (train_setup counting_framework 0 no_files))"
  using train_succeeds [OF load_minst_data_mnist_const batch_count_of_pos [OF assms]]
  by simp

lemma counting_framework_simps:
  "fst (random_normal counting_framework r n d) = replicate n (replicate d 0)"
  "fst (random_randint counting_framework r hi n) = replicate n 0"
  "predict counting_framework w x = map (\<lambda>row. replicate 784 0) x"
  by (simp_all add: counting_framework_def)

lemma trace_batch_step:
  "trace (batch_step fw x B s) =
     trace s @ [Set_trainable True,
       Dis_train_on_batch (fst (draw_batches fw x B s) @ fst (snd (draw_batches fw x B s)))
         (y_dis_labels B),
       Set_trainable False,
       Gan_train_on_batch (fst (random_normal fw (rng (dis_phase fw x B s)) B random_dim)) (np_ones B)]"
  by (simp add: batch_step_def trace_gen_phase trace_dis_phase)

lemma counting_run_trace:
  "trace (fold (epoch counting_framework
                 \<lparr>shape = [60000, 784], data = replicate 47040000 (normalize_pixel 0)\<rparr>
                 (60000 div 60000) (nat 60000)) [1..1] (train_setup counting_framework 0 no_files)) =
   [Set_trainable False, Print_epoch 1, Set_trainable True,
    Dis_train_on_batch (replicate 60000 (replicate 784 (- 1)) @ replicate 60000 (replicate 784 0))
      (y_dis_labels 60000),
    Set_trainable False,
    Gan_train_on_batch (replicate 60000 (replicate 100 0)) (np_ones 60000),
    Plot_generated_images 1]"
proof -
  have u: "[1..1::int] = [1]"
    by (simp add: upto.simps)
  have n: "normalize_pixel 0 = - 1"
    by (simp add: normalize_pixel_def)
  show ?thesis
    unfolding u n
    by (simp add: epoch_def Let_def trace_emit trace_plot trace_batch_step
        trace_train_setup draw_batches_parts counting_framework_simps nd_row_def random_dim_def)
qed

theorem dis_phase_batch_and_labels_witness:
  "length (y_dis_labels 128) = 256 \<and> y_dis_labels 128 ! 0 = 9 / 10 \<and> y_dis_labels 128 ! 127 = 9 / 10
   \<and> y_dis_labels 128 ! 128 = 0 \<and> y_dis_labels 128 ! 255 = 0
   \<and> train counting_framework (mnist_const 0) 0 no_files 1 60000 =
        Inr (fold (epoch counting_framework
                 \<lparr>shape = [60000, 784], data = replicate 47040000 (normalize_pixel 0)\<rparr>
                 (60000 div 60000) (nat 60000)) [1..1] (train_setup counting_framework 0 no_files))
   \<and> Dis_train_on_batch (replicate 60000 (replicate 784 (- 1)) @ replicate 60000 (replicate 784 0))
        (y_dis_labels 60000)
       \<in> set (trace (fold (epoch counting_framework
                 \<lparr>shape = [60000, 784], data = replicate 47040000 (normalize_pixel 0)\<rparr>
                 (60000 div 60000) (nat 60000)) [1..1] (train_setup counting_framework 0 no_files)))
   \<and> y_dis_labels 60000 = y_dis_labels (nat 60000)"
proof -
  let ?s = "fold (epoch counting_framework
                 \<lparr>shape = [60000, 784], data = replicate 47040000 (normalize_pixel 0)\<rparr>
                 (60000 div 60000) (nat 60000)) [1..1] (train_setup counting_framework 0 no_files)"
  note t = dis_phase_batch_and_labels [of counting_framework
      "\<lparr>shape = [60000, 784], data = replicate 47040000 (normalize_pixel 0)\<rparr>" 128
      "train_setup counting_framework 0 no_files" "mnist_const 0" 0 no_files 1 60000 ?s]
  note t3 = t [THEN conjunct2, THEN conjunct2, THEN conjunct2]
  have a: "length (y_dis_labels 128) = 2 * 128"
    by (rule t3 [THEN conjunct1])
  have b: "\<forall>i < 128. y_dis_labels 128 ! i = 9 / 10"
    by (rule t3 [THEN conjunct2, THEN conjunct1])
  have c: "\<forall>i. 128 \<le> i \<and> i < 2 * 128 \<longrightarrow> y_dis_labels 128 ! i = 0"
    by (rule t3 [THEN conjunct2, THEN conjunct2, THEN conjunct1])
  note d = t3 [THEN conjunct2, THEN conjunct2, THEN conjunct2]
  have l: "length (y_dis_labels 128) = 256"
    using a by simp
  have b0: "y_dis_labels 128 ! 0 = 9 / 10" and b127: "y_dis_labels 128 ! 127 = 9 / 10"
    using b by simp_all
  have c128: "y_dis_labels 128 ! 128 = 0" and c255: "y_dis_labels 128 ! 255 = 0"
    using c by simp_all
  let ?X = "replicate 60000 (replicate 784 (- 1 :: rat)) @ replicate 60000 (replicate 784 0)"
  have run: "train counting_framework (mnist_const 0) 0 no_files 1 60000 = Inr ?s"
    by (rule train_counting) simp
  have ev: "Dis_train_on_batch ?X (y_dis_labels 60000) \<in> set (trace ?s)"
    unfolding counting_run_trace by simp
  from d run ev
  have dd: "(0::int) < 60000 \<and> y_dis_labels 60000 = y_dis_labels (nat 60000)"
    by blast
  from l b0 b127 c128 c255 run ev dd [THEN conjunct2] show ?thesis
    by (intro conjI)
qed

section \<open>When the images are rendered\<close>

lemma rendered_45: "filter (\<lambda>e. e = 1 \<or> e mod 20 = 0) [1..45] = [1, 20, 40 :: int]"
  by code_simp

lemma rendered_train:
  assumes "train fw m r f N b = Inr s"
  shows "rendered (trace s) = filter (\<lambda>e. e = 1 \<or> e mod 20 = 0) [1..N]"
proof -
  from assms obtain bc where "map erase (trace s) = expected_trace bc (nat b) N"
    by (rule erased_train)
  then have "rendered (map erase (trace s)) = filter (\<lambda>e. e = 1 \<or> e mod 20 = 0) [1..N]"
    by (simp add: rendered_expected)
  then show ?thesis
    by (simp add: rendered_erase)
qed

text \<open>
  Claim C3. In a run of \<^verbatim>\<open>train\<close> over the epochs 1 to \<open>N\<close> the images are rendered
  at epoch 1 and at every epoch that is a multiple of 20, and at no other epoch. Over
  the epochs 1 to 45 these are the epochs 1, 20 and 40.
\<close>

theorem train_rendered_epochs:
  assumes "train fw m r f N b = Inr s"
  shows "rendered (trace s) = filter (\<lambda>e. e = 1 \<or> e mod 20 = 0) [1..N]
       \<and> (\<forall>e. e \<in> set (rendered (trace s)) \<longleftrightarrow> 1 \<le> e \<and> e \<le> N \<and> (e = 1 \<or> e mod 20 = 0))
       \<and> (N = 45 \<longrightarrow> rendered (trace s) = [1, 20, 40])
       \<and> (1 \<le> N \<and> N \<le> 45 \<longrightarrow> set (rendered (trace s)) = {e \<in> {1, 20, 40}. e \<le> N})"
proof -
  note r = rendered_train [OF assms]
  have a: "\<forall>e. e \<in> set (rendered (trace s)) \<longleftrightarrow> 1 \<le> e \<and> e \<le> N \<and> (e = 1 \<or> e mod 20 = 0)"
    by (auto simp: r)
  have b: "N = 45 \<longrightarrow> rendered (trace s) = [1, 20, 40]"
    by (simp add: r rendered_45)
  have c: "set (rendered (trace s)) = {e \<in> {1, 20, 40}. e \<le> N}" if "1 \<le> N \<and> N \<le> 45"
  proof -
    have "(1 \<le> e \<and> e \<le> N \<and> (e = 1 \<or> e mod 20 = 0)) \<longleftrightarrow> (e \<in> {1, 20, 40} \<and> e \<le> N)" for e
      using that by (simp only: insert_iff empty_iff) presburger
    with a show ?thesis
      by blast
  qed
  from r a b c show ?thesis
    by blast
qed

theorem train_rendered_epochs_witness:
  "train counting_framework (mnist_const 0) 0 no_files 45 70000 =
     Inr (fold (epoch counting_framework
                 \<lparr>shape = [60000, 784], data = replicate 47040000 (normalize_pixel 0)\<rparr>
                 (60000 div 70000) (nat 70000)) [1..45] (train_setup counting_framework 0 no_files))
   \<and> rendered (trace (fold (epoch counting_framework
                 \<lparr>shape = [60000, 784], data = replicate 47040000 (normalize_pixel 0)\<rparr>
                 (60000 div 70000) (nat 70000)) [1..45] (train_setup counting_framework 0 no_files)))
     = [1, 20, 40]"
proof -
  let ?s = "fold (epoch counting_framework
                 \<lparr>shape = [60000, 784], data = replicate 47040000 (normalize_pixel 0)\<rparr>
                 (60000 div 70000) (nat 70000)) [1..45] (train_setup counting_framework 0 no_files)"
  have run: "train counting_framework (mnist_const 0) 0 no_files 45 70000 = Inr ?s"
    by (rule train_counting) simp
  note t = train_rendered_epochs [OF run]
  have "(45::int) = 45 \<longrightarrow> rendered (trace ?s) = [1, 20, 40]"
    by (rule t [THEN conjunct2, THEN conjunct2, THEN conjunct1])
  then have "rendered (trace ?s) = [1, 20, 40]"
    by (rule mp) (rule refl)
  with run show ?thesis
    by (intro conjI)
qed

section \<open>The number of batch steps\<close>

lemma count_new_events_epoch:
  "length (filter is_dis_step (new_events s (epoch fw x bc B e s))) = nat bc"
  "length (filter is_gan_step (new_events s (epoch fw x bc B e s))) = nat bc"
proof -
  have ev: "map erase (new_events s (epoch fw x bc B e s)) = epoch_events bc B e"
    by (rule erased_new_events) (rule erased_epoch)
  have "length (filter is_dis_step (map erase (new_events s (epoch fw x bc B e s)))) = nat bc"
    by (simp only: ev count_epoch_events)
  then show "length (filter is_dis_step (new_events s (epoch fw x bc B e s))) = nat bc"
    by (simp only: count_erase [of is_dis_step, OF is_dis_step_erase])
  have "length (filter is_gan_step (map erase (new_events s (epoch fw x bc B e s)))) = nat bc"
    by (simp only: ev count_epoch_events)
  then show "length (filter is_gan_step (new_events s (epoch fw x bc B e s))) = nat bc"
    by (simp only: count_erase [of is_gan_step, OF is_gan_step_erase])
qed

lemma count_train:
  assumes "train fw m r f N b = Inr s" and "0 < b"
  shows "length (filter is_dis_step (trace s)) = nat N * (60000 div nat b)"
    and "length (filter is_gan_step (trace s)) = nat N * (60000 div nat b)"
    and "length (filter is_flag_write (trace s)) = 1 + 2 * (nat N * (60000 div nat b))"
proof -
  from assms(1) obtain bc where
    bc: "batch_count_of 60000 b = Inr bc" and
    tr: "map erase (trace s) = expected_trace bc (nat b) N"
    by (rule erased_train)
  have n: "nat bc = 60000 div nat b"
    using batch_count_of_cases [OF bc] assms(2) by simp
  have "length (filter is_dis_step (map erase (trace s))) = nat N * (60000 div nat b)"
    by (simp only: tr count_expected n)
  then show "length (filter is_dis_step (trace s)) = nat N * (60000 div nat b)"
    by (simp only: count_erase [of is_dis_step, OF is_dis_step_erase])
  have "length (filter is_gan_step (map erase (trace s))) = nat N * (60000 div nat b)"
    by (simp only: tr count_expected n)
  then show "length (filter is_gan_step (trace s)) = nat N * (60000 div nat b)"
    by (simp only: count_erase [of is_gan_step, OF is_gan_step_erase])
  have "length (filter is_flag_write (map erase (trace s))) = 1 + 2 * (nat N * (60000 div nat b))"
    by (simp only: tr count_expected n)
  then show "length (filter is_flag_write (trace s)) = 1 + 2 * (nat N * (60000 div nat b))"
    by (simp only: count_erase [of is_flag_write, OF is_flag_write_erase])
qed

text \<open>
  Claim C6. For every dataset size \<open>n\<close> and every positive batch size,
  \<^verbatim>\<open>int(n / batch_size)\<close> is \<open>n div batch_size\<close>, and an epoch of the training loop makes
  exactly that many batch steps, each with one discriminator step and one step of the
  composite network. For 60000 samples and batch size 128 these are 468 steps. True
  division is exact here; on floating-point numbers it gives the same integer for the
  60000 samples the script loads.
\<close>

theorem epoch_batch_count:
  assumes "0 < batch_size"
  shows "batch_count_of n batch_size = Inr (int n div batch_size)
       \<and> length (filter is_dis_step
            (new_events s (epoch fw x (int n div batch_size) (nat batch_size) e s))) = n div nat batch_size
       \<and> length (filter is_gan_step
            (new_events s (epoch fw x (int n div batch_size) (nat batch_size) e s))) = n div nat batch_size
       \<and> (train fw m r f N batch_size = Inr s' \<longrightarrow>
            length (filter is_dis_step (trace s')) = nat N * (60000 div nat batch_size))
       \<and> batch_count_of 60000 128 = Inr 468"
proof -
  have d: "nat (int n div batch_size) = n div nat batch_size"
    using assms by (simp add: nat_div_distrib)
  have a: "batch_count_of n batch_size = Inr (int n div batch_size)"
    using assms by (rule batch_count_of_pos)
  have b: "batch_count_of 60000 128 = Inr (int 60000 div 128)"
    by (rule batch_count_of_pos) simp
  have c: "train fw m r f N batch_size = Inr s' \<longrightarrow>
            length (filter is_dis_step (trace s')) = nat N * (60000 div nat batch_size)"
  proof
    assume "train fw m r f N batch_size = Inr s'"
    then show "length (filter is_dis_step (trace s')) = nat N * (60000 div nat batch_size)"
      using assms by (rule count_train(1))
  qed
  from a b c show ?thesis
    by (simp add: count_new_events_epoch d)
qed

theorem epoch_batch_count_witness:
  "batch_count_of 60000 128 = Inr 468
   \<and> length (filter is_dis_step
        (new_events (train_setup counting_framework 0 no_files)
           (epoch counting_framework
              \<lparr>shape = [60000, 784], data = replicate 47040000 (normalize_pixel 0)\<rparr>
              (int 60000 div 128) (nat 128) 1 (train_setup counting_framework 0 no_files)))) = 468"
proof -
  have p: "(0::int) < 128"
    by simp
  note t = epoch_batch_count [OF p, of 60000 "train_setup counting_framework 0 no_files"
      counting_framework "\<lparr>shape = [60000, 784], data = replicate 47040000 (normalize_pixel 0)\<rparr>" 1]
  have a: "batch_count_of 60000 128 = Inr (int 60000 div 128)"
    by (rule t [THEN conjunct1])
  have b: "length (filter is_dis_step
        (new_events (train_setup counting_framework 0 no_files)
           (epoch counting_framework
              \<lparr>shape = [60000, 784], data = replicate 47040000 (normalize_pixel 0)\<rparr>
              (int 60000 div 128) (nat 128) 1 (train_setup counting_framework 0 no_files)))) = 60000 div nat 128"
    by (rule t [THEN conjunct2, THEN conjunct1])
  have c: "(60000::nat) div nat 128 = 468"
    by simp
  have d: "int 60000 div 128 = 468"
    by simp
  from a have a': "batch_count_of 60000 128 = Inr 468"
    by (simp only: d)
  from b have b': "length (filter is_dis_step
        (new_events (train_setup counting_framework 0 no_files)
           (epoch counting_framework
              \<lparr>shape = [60000, 784], data = replicate 47040000 (normalize_pixel 0)\<rparr>
              (int 60000 div 128) (nat 128) 1 (train_setup counting_framework 0 no_files)))) = 468"
    by (simp only: c)
  from a' b' show ?thesis
    by (rule conjI)
qed

section \<open>The optimiser of the three networks\<close>

lemma train_setup_fields:
  "rng (train_setup fw r f) = r"
  "files (train_setup fw r f) = f"
  "optimizers (train_setup fw r f) = [\<lparr>lr = 2 / 10000, beta_1 = 5 / 10\<rparr>]"
  "generator (train_setup fw r f) = get_generator fw 0"
  "discriminator (train_setup fw r f) = (get_discriminator fw 0)\<lparr>trainable := False\<rparr>"
  "gan (train_setup fw r f) =
     \<lparr>gan_input_dim = random_dim, gan_loss = ''binary_crossentropy'', gan_optimizer = 0\<rparr>"
  by (simp_all add: train_setup_def get_optimizer_def get_gan_network_def Let_def)

text \<open>
  Claim C1, as amended. \<^verbatim>\<open>train\<close> calls \<^verbatim>\<open>get_optimizer\<close> once and compiles the
  generator, the discriminator and the composite network with that one optimiser
  object, whose learning rate is \<open>0.0002\<close> and whose first-moment decay is \<open>0.5\<close>.
  The three networks do not have an optimiser object each: the counterexample shows
  that their three references are not distinct.
\<close>

theorem train_setup_shared_optimizer:
  "optimizers (train_setup fw r f) = [\<lparr>lr = 2 / 10000, beta_1 = 5 / 10\<rparr>]
   \<and> optimizer (generator (train_setup fw r f)) = 0
   \<and> optimizer (discriminator (train_setup fw r f)) = 0
   \<and> gan_optimizer (gan (train_setup fw r f)) = 0
   \<and> lr (optimizers (train_setup fw r f) ! 0) = 2 / 10000
   \<and> beta_1 (optimizers (train_setup fw r f) ! 0) = 5 / 10"
  by (simp add: train_setup_fields get_generator_def get_discriminator_def)

theorem train_setup_shared_optimizer_witness:
  "length (optimizers (train_setup counting_framework 0 no_files)) = 1
   \<and> optimizer (generator (train_setup counting_framework 0 no_files)) =
       optimizer (discriminator (train_setup counting_framework 0 no_files))
   \<and> gan_optimizer (gan (train_setup counting_framework 0 no_files)) =
       optimizer (generator (train_setup counting_framework 0 no_files))"
  using train_setup_shared_optimizer [of counting_framework 0 no_files] by simp

theorem train_setup_own_optimizers_counterexample:
  "\<not> distinct [optimizer (generator (train_setup counting_framework 0 no_files)),
               optimizer (discriminator (train_setup counting_framework 0 no_files)),
               gan_optimizer (gan (train_setup counting_framework 0 no_files))]"
  by (simp add: train_setup_fields get_generator_def get_discriminator_def)

section \<open>A run without epochs\<close>

lemma batch_count_of_nonzero:
  assumes "b \<noteq> 0"
  shows "\<exists>bc. batch_count_of n b = Inr bc"
proof (cases "0 < b")
  case True
  then show ?thesis
    using batch_count_of_pos by blast
next
  case False
  with assms have "b < 0" by simp
  then show ?thesis
    using batch_count_of_neg by blast
qed

text \<open>
  Claim C9, as amended. With \<^verbatim>\<open>epochs = 0\<close>, a dataset that loads and a batch size
  other than zero, \<^verbatim>\<open>train\<close> returns normally in the state it has after building the
  networks: no batch step, no optimiser step, the weights as initialised, no image
  rendered and no file written. With batch size zero the call raises
  \<^verbatim>\<open>ZeroDivisionError\<close> at line 110, before the loop: that is the counterexample.
\<close>

theorem train_zero_epochs:
  assumes "load_minst_data m = Inr (x_train, y_train, x_test, y_test)" and "batch_size \<noteq> 0"
  shows "train fw m r f 0 batch_size = Inr (train_setup fw r f)
       \<and> files (train_setup fw r f) = f
       \<and> rng (train_setup fw r f) = r
       \<and> weights (generator (train_setup fw r f)) = init_weights fw generator_layers
       \<and> weights (discriminator (train_setup fw r f)) = init_weights fw discriminator_layers
       \<and> filter is_dis_step (trace (train_setup fw r f)) = []
       \<and> filter is_gan_step (trace (train_setup fw r f)) = []
       \<and> rendered (trace (train_setup fw r f)) = []"
proof -
  from assms(2) obtain bc where bc: "batch_count_of 60000 batch_size = Inr bc"
    using batch_count_of_nonzero by blast
  have "train fw m r f 0 batch_size =
      Inr (fold (epoch fw x_train bc (nat batch_size)) [1..0] (train_setup fw r f))"
    using assms(1) bc by (rule train_succeeds)
  then have "train fw m r f 0 batch_size = Inr (train_setup fw r f)"
    by simp
  then show ?thesis
    by (simp add: train_setup_fields trace_train_setup get_generator_def get_discriminator_def)
qed

theorem train_zero_epochs_witness:
  "train counting_framework (mnist_const 0) 0 no_files 0 128 =
     Inr (train_setup counting_framework 0 no_files)
   \<and> files (train_setup counting_framework 0 no_files) = no_files
   \<and> rendered (trace (train_setup counting_framework 0 no_files)) = []"
proof -
  have n: "(128::int) \<noteq> 0"
    by simp
  note t = train_zero_epochs [OF load_minst_data_mnist_const n,
      where fw = counting_framework and r = 0 and f = no_files and v1 = 0]
  from t show ?thesis
    by (intro conjI) (elim conjE, assumption)+
qed

theorem train_zero_epochs_counterexample:
  "train counting_framework (mnist_const 0) 0 no_files 0 0 = Inl ZeroDivisionError"
proof -
  have "batch_count_of 60000 0 = Inl ZeroDivisionError"
    by (rule batch_count_of_zero)
  then show ?thesis
    using load_minst_data_mnist_const [of 0] by (simp add: train_def)
qed

end
